theory Spec2Isabelle
  imports Complex_Main
begin

section \<open>Data model\<close>

text \<open>
  Numbers are JavaScript numbers read as exact reals; \<open>Math.round x\<close> is
  \<open>\<lfloor>x + 1/2\<rfloor>\<close>, which is HOL's \<^const>\<open>round\<close>. Dates are milliseconds since the epoch,
  and the clock (\<open>Date.now()\<close>, \<open>new Date()\<close>) is a parameter \<open>now\<close>. An ObjectId is a
  natural number. A JavaScript string is a list of code units; the only code unit beyond
  ASCII in the sources is U+00E9, written \<open>CHR 0xE9\<close>.
\<close>

type_synonym objectId = nat
type_synonym date = int

text \<open>The \<open>enum\<close> lists of the Mongoose schemas.\<close>

datatype category = Plan | Do | Check | Act

datatype response_value = Oui | Non | Partiellement

datatype maturity = Critique | Basique | Intermediaire | Avance | Excellence

datatype color = Danger | Secondary | Warning | Info | Success

datatype questionnaire_status = Q_Draft | Q_Completed | Q_Archived

text \<open>
  \<open>questionResponseSchema\<close>. A request body carries \<open>category\<close> and \<open>response\<close> as
  strings (\<open>'c = 'r = string\<close>); a stored document carries the members of the schema's
  enums. \<open>{...response, score}\<close> is the record extension by \<open>score\<close>.
\<close>

record ('c, 'r) question_response =
  questionId :: string
  questionText :: string
  category :: 'c
  clause :: string
  weight :: real
  critical :: bool
  response :: 'r

record ('c, 'r) scored_response = "('c, 'r) question_response" +
  score :: real

type_synonym response_body = "(string, string) question_response"
type_synonym scored_body = "(string, string) scored_response"
type_synonym stored_response = "(category, response_value) scored_response"

record maturity_level =
  level :: maturity
  color :: color
  ml_description :: string

text \<open>
  An object with exactly the keys \<open>Plan\<close>, \<open>Do\<close>, \<open>Check\<close>, \<open>Act\<close>, in this order:
  \<open>categoryScores\<close>, \<open>progress.byCategory\<close>, and the counters
  \<open>{ Plan: 0, Do: 0, Check: 0, Act: 0 }\<close> of the hooks. \<open>cget m c\<close> is \<open>m[c]\<close>,
  \<open>cset m c v\<close> is \<open>m[c] = v\<close>, \<open>entries m\<close> is \<open>Object.entries(m)\<close>.
\<close>

record 'a by_category =
  atPlan :: 'a
  atDo :: 'a
  atCheck :: 'a
  atAct :: 'a

fun cget :: "'a by_category \<Rightarrow> category \<Rightarrow> 'a" where
  "cget m Plan = atPlan m"
| "cget m Do = atDo m"
| "cget m Check = atCheck m"
| "cget m Act = atAct m"

fun cset :: "'a by_category \<Rightarrow> category \<Rightarrow> 'a \<Rightarrow> 'a by_category" where
  "cset m Plan v = m\<lparr>atPlan := v\<rparr>"
| "cset m Do v = m\<lparr>atDo := v\<rparr>"
| "cset m Check v = m\<lparr>atCheck := v\<rparr>"
| "cset m Act v = m\<lparr>atAct := v\<rparr>"

definition keys :: "category list" where
  "keys = [Plan, Do, Check, Act]"

definition entries :: "'a by_category \<Rightarrow> (category \<times> 'a) list" where
  "entries m = map (\<lambda>c. (c, cget m c)) keys"

definition all0 :: "'a::zero by_category" where
  "all0 = \<lparr>atPlan = 0, atDo = 0, atCheck = 0, atAct = 0\<rparr>"

record non_conformity =
  question :: string
  nc_clause :: string
  impact :: string

text \<open>\<open>questionnaireSchema\<close>; Mongoose's own \<open>createdAt\<close>/\<open>updatedAt\<close> are left out.\<close>

record questionnaire =
  q_id :: objectId
  q_userId :: objectId
  responses :: "stored_response list"
  overallScore :: real
  categoryScores :: "int by_category"
  maturityLevel :: maturity_level
  majorNonConformities :: "non_conformity list"
  totalQuestions :: nat
  answeredQuestions :: nat
  completionTime :: real
  q_status :: questionnaire_status
  q_notes :: string
  q_tags :: "string list"

text \<open>The enums of \<open>taskSchema\<close>, \<open>milestoneSchema\<close> and \<open>roadmapSchema\<close>.\<close>

datatype priority = Critical | High | Medium | Low

datatype effort = Days_1_2 | Days_3_5 | Weeks_1_2 | Weeks_2_4 | Months_1_3

datatype cost = Cost_Low | Cost_Medium | Cost_High | Cost_Very_High

datatype task_status = Not_Started | In_Progress | Completed | On_Hold

datatype milestone_status = Pending | Milestone_In_Progress | Milestone_Completed | Delayed

datatype timeline = Months_3_6 | Months_6_12 | Years_1_2 | Years_2_plus

datatype roadmap_status = Draft | Active | Roadmap_On_Hold | Roadmap_Completed | Archived

datatype degree = Degree_Low | Degree_Medium | Degree_High

datatype compliance_status =
  Compliance_Not_Started | Compliance_In_Progress | Compliance_Completed | At_Risk

record attachment =
  filename :: string
  url :: string
  uploadedAt :: date

text \<open>
  The fields of \<open>taskSchema\<close>. A plain object from which a task is constructed
  (\<open>task_data\<close>: an element of \<open>initialTasks\<close>, or the body of \<open>POST /:id/tasks\<close>) may
  leave \<open>status\<close> out; a \<open>task\<close> is the subdocument, with the schema's default
  \<open>'Not Started'\<close> applied and its \<open>_id\<close>.
\<close>

record 's task_fields =
  title :: string
  description :: string
  t_category :: category
  priority :: priority
  estimatedEffort :: effort
  dependencies :: "objectId list"
  resources :: "string list"
  cost :: cost
  status :: 's
  startDate :: "date option"
  dueDate :: "date option"
  completedDate :: "date option"
  assignedTo :: "string option"
  t_notes :: "string option"
  attachments :: "attachment list"

type_synonym task_data = "task_status option task_fields"

record task = "task_status task_fields" +
  t_id :: objectId

record milestone_data =
  m_title :: string
  m_description :: string
  targetDate :: date
  m_status :: milestone_status
  m_tasks :: "objectId list"
  completionPercentage :: int

record milestone = milestone_data +
  m_id :: objectId

record priority_area =
  pa_category :: category
  currentScore :: int
  targetScore :: int
  improvementNeeded :: int

record risk_entry =
  risk :: string
  probability :: degree
  r_impact :: degree
  mitigation :: string

record compliance_requirement =
  requirement :: string
  deadline :: date
  c_status :: compliance_status
  c_notes :: string

record progress =
  overall :: int
  byCategory :: "int by_category"

record roadmap =
  r_id :: objectId
  r_userId :: objectId
  questionnaireId :: objectId
  r_title :: string
  r_description :: string
  currentMaturityLevel :: maturity
  targetMaturityLevel :: maturity
  estimatedTimeline :: timeline
  totalEstimatedCost :: cost
  milestones :: "milestone list"
  tasks :: "task list"
  priorityAreas :: "priority_area list"
  riskAssessment :: "risk_entry list"
  complianceRequirements :: "compliance_requirement list"
  progress :: progress
  r_status :: roadmap_status
  r_tags :: "string list"
  version :: string
  lastUpdated :: date

text \<open>
  The collections of the database, and the counter from which new ObjectIds are taken.
  \<open>req.user\<close> is the authenticated user set by \<open>authenticateToken\<close>.
\<close>

record database =
  questionnaires :: "questionnaire list"
  roadmaps :: "roadmap list"
  next_id :: objectId

record user =
  u_id :: objectId
  role :: string

text \<open>
  What a route handler sends: \<open>res.status(code).json({success: true, ...})\<close> with the
  document it reports, or \<open>res.status(code).json({error, details})\<close>.
\<close>

datatype 'a reply = Json_ok nat 'a | Json_error nat string "string list"

section \<open>Scoring (routes/questionnaires.js)\<close>

text \<open>
  The callback of \<open>responses.map\<close> in \<open>router.post('/')\<close>:
  \<open>let score = 0; if (response.response === 'Oui') score = response.weight;
  else if (response.response === 'Partiellement') score = response.weight * 0.5;
  return {...response, score}\<close>.
\<close>

definition with_score :: "response_body \<Rightarrow> real \<Rightarrow> scored_body" where
  "with_score r s =
     \<lparr>questionId = questionId r, questionText = questionText r, category = category r,
      clause = clause r, weight = weight r, critical = critical r, response = response r,
      score = s\<rparr>"

definition post_score :: "response_body \<Rightarrow> scored_body" where
  "post_score r =
     with_score r
       (if response r = ''Oui'' then weight r
        else if response r = ''Partiellement'' then weight r * 0.5
        else 0)"

definition post_scoredResponses :: "response_body list \<Rightarrow> scored_body list" where
  "post_scoredResponses rs = map post_score rs"

text \<open>The second copy of the callback, in \<open>router.put('/:id')\<close>.\<close>

definition put_score :: "response_body \<Rightarrow> scored_body" where
  "put_score r =
     with_score r
       (if response r = ''Oui'' then weight r
        else if response r = ''Partiellement'' then weight r * 0.5
        else 0)"

definition put_scoredResponses :: "response_body list \<Rightarrow> scored_body list" where
  "put_scoredResponses rs = map put_score rs"

section \<open>Maturity classification (models/Questionnaire.js)\<close>

text \<open>\<open>questionnaireSchema.methods.getMaturityLevel\<close>.\<close>

definition getMaturityLevel :: "real \<Rightarrow> maturity_level" where
  "getMaturityLevel s =
     (if s \<ge> 90 then
        \<lparr>level = Excellence, color = Success, ml_description = ''SMSI mature et robuste''\<rparr>
      else if s \<ge> 75 then
        \<lparr>level = Avance, color = Info,
         ml_description = ''SMSI bien structur'' @ [CHR 0xE9]\<rparr>
      else if s \<ge> 60 then
        \<lparr>level = Intermediaire, color = Warning,
         ml_description = ''SMSI en d'' @ [CHR 0xE9] @ ''veloppement''\<rparr>
      else if s \<ge> 40 then
        \<lparr>level = Basique, color = Secondary, ml_description = ''SMSI en phase initiale''\<rparr>
      else
        \<lparr>level = Critique, color = Danger,
         ml_description = ''SMSI n'' @ [CHR 0xE9] @ ''cessite une attention imm''
                       @ [CHR 0xE9] @ ''diate''\<rparr>)"

section \<open>Questionnaire model (models/Questionnaire.js)\<close>








section \<open>Questionnaire routes (routes/questionnaires.js)\<close>


definition each_response :: "(response_body \<Rightarrow> bool) \<Rightarrow> string \<Rightarrow> response_body list \<Rightarrow> string list" where
  "each_response ok msg rs = map (\<lambda>r. msg) (filter (\<lambda>r. \<not> ok r) rs)"







text \<open>\<open>Model.findById\<close> and the write of \<open>save()\<close> on a document that was loaded.\<close>

fun replace_first :: "('a \<Rightarrow> bool) \<Rightarrow> 'a \<Rightarrow> 'a list \<Rightarrow> 'a list" where
  "replace_first P y [] = []"
| "replace_first P y (x # xs) = (if P x then y # xs else x # replace_first P y xs)"




section \<open>Roadmap model (models/Roadmap.js)\<close>

text \<open>The virtual \<open>overallProgress\<close>.\<close>

definition overallProgress :: "roadmap \<Rightarrow> int" where
  "overallProgress r =
     (if length (tasks r) = 0 then 0
      else
        let completedTasks = length (filter (\<lambda>task. status task = Completed) (tasks r))
        in round ((real completedTasks / real (length (tasks r))) * 100))"

text \<open>
  The virtual \<open>categoryProgress\<close>: two counting loops over the tasks, then the loop over
  \<open>Object.keys(categoryProgress)\<close> that overwrites each count by its percentage.
\<close>

definition categoryProgress :: "roadmap \<Rightarrow> int by_category" where
  "categoryProgress r =
     (let counted =
            foldl (\<lambda>categoryProgress task.
                     if status task = Completed
                     then cset categoryProgress (t_category task)
                            (cget categoryProgress (t_category task) + 1)
                     else categoryProgress)
                  all0 (tasks r);
          categoryCounts =
            foldl (\<lambda>categoryCounts task.
                     cset categoryCounts (t_category task)
                       (cget categoryCounts (t_category task) + 1))
                  all0 (tasks r)
      in foldl (\<lambda>categoryProgress category.
                  cset categoryProgress category
                    (if cget categoryCounts category > 0
                     then round ((real_of_int (cget categoryProgress category)
                                  / real_of_int (cget categoryCounts category)) * 100)
                     else 0))
               counted keys)"

text \<open>
  \<open>roadmapSchema.pre('save')\<close>; \<open>modified\<close> is \<open>this.isModified('tasks')\<close>.
\<close>

definition roadmap_pre_save :: "date \<Rightarrow> bool \<Rightarrow> roadmap \<Rightarrow> roadmap" where
  "roadmap_pre_save now modified r =
     (if modified then
        r\<lparr>progress := \<lparr>overall = overallProgress r, byCategory = categoryProgress r\<rparr>,
          lastUpdated := now\<rparr>
      else r)"

text \<open>
  \<open>this.save()\<close> on a loaded roadmap: the hook, then the write. Mongoose marks a path
  modified when a value is pushed to it or a value different from the stored one is
  assigned below it, so \<open>isModified('tasks')\<close> holds exactly when the task sequence
  differs from the one that was loaded (\<open>loaded\<close>).
\<close>

definition save_roadmap :: "date \<Rightarrow> roadmap \<Rightarrow> roadmap \<Rightarrow> database \<Rightarrow> roadmap \<times> database" where
  "save_roadmap now loaded r db =
     (let r' = roadmap_pre_save now (tasks r \<noteq> tasks loaded) r
      in (r', db\<lparr>roadmaps := replace_first (\<lambda>d. r_id d = r_id r') r' (roadmaps db)\<rparr>))"

text \<open>
  The subdocument made of a plain object: the schema's fields are copied, \<open>status\<close>
  defaults to \<open>'Not Started'\<close>, and the \<open>_id\<close> is new. Any other key of the object
  (the record's extension) is dropped.
\<close>

definition new_Task :: "objectId \<Rightarrow> (task_status option, 'x) task_fields_scheme \<Rightarrow> task" where
  "new_Task i taskData =
     \<lparr>title = title taskData, description = description taskData,
      t_category = t_category taskData, priority = priority taskData,
      estimatedEffort = estimatedEffort taskData, dependencies = dependencies taskData,
      resources = resources taskData, cost = cost taskData,
      status = (case status taskData of None \<Rightarrow> Not_Started | Some s \<Rightarrow> s),
      startDate = startDate taskData, dueDate = dueDate taskData,
      completedDate = completedDate taskData, assignedTo = assignedTo taskData,
      t_notes = t_notes taskData, attachments = attachments taskData, t_id = i\<rparr>"

definition new_Milestone :: "objectId \<Rightarrow> 'x milestone_data_scheme \<Rightarrow> milestone" where
  "new_Milestone i milestoneData =
     \<lparr>m_title = m_title milestoneData, m_description = m_description milestoneData,
      targetDate = targetDate milestoneData, m_status = m_status milestoneData,
      m_tasks = m_tasks milestoneData,
      completionPercentage = completionPercentage milestoneData, m_id = i\<rparr>"


text \<open>
  \<open>roadmapSchema.methods.updateTaskStatus\<close>. \<open>this.tasks.id(taskId)\<close> is the first
  subdocument with that \<open>_id\<close>, or null; the assignments change that subdocument in
  place; when there is none the method throws before anything is assigned or saved.
\<close>

datatype error = Error string

definition updateTaskStatus ::
  "date \<Rightarrow> objectId \<Rightarrow> task_status \<Rightarrow> roadmap \<Rightarrow> database \<Rightarrow> error + roadmap \<times> database" where
  "updateTaskStatus now taskId st r db =
     (case find (\<lambda>t. t_id t = taskId) (tasks r) of
        Some task \<Rightarrow>
          let task1 = task\<lparr>status := st\<rparr>;
              task2 = (if st = Completed then task1\<lparr>completedDate := Some now\<rparr> else task1)
          in Inr (save_roadmap now r
                    (r\<lparr>tasks := replace_first (\<lambda>t. t_id t = taskId) task2 (tasks r)\<rparr>) db)
      | None \<Rightarrow> Inl (Error ''Task not found''))"


section \<open>Roadmap routes (routes/roadmaps.js)\<close>

text \<open>
  The validation chains of these routes check the shape of the body only (lengths,
  membership in the enums); the bodies below are bodies that passed them, with the
  enum-valued fields already members of their enums.

  Template literals print a category or a maturity level by its name and a score (an
  integer, the result of \<open>Math.round\<close>) in decimal.
\<close>

definition category_name :: "category \<Rightarrow> string" where
  "category_name c = (case c of Plan \<Rightarrow> ''Plan'' | Do \<Rightarrow> ''Do'' | Check \<Rightarrow> ''Check'' | Act \<Rightarrow> ''Act'')"

definition maturity_name :: "maturity \<Rightarrow> string" where
  "maturity_name m =
     (case m of Critique \<Rightarrow> ''Critique'' | Basique \<Rightarrow> ''Basique''
      | Intermediaire \<Rightarrow> ''Interm'' @ [CHR 0xE9] @ ''diaire''
      | Avance \<Rightarrow> ''Avanc'' @ [CHR 0xE9] | Excellence \<Rightarrow> ''Excellence'')"

fun nat_string :: "nat \<Rightarrow> string" where
  "nat_string n =
     (if n < 10 then [''0123456789'' ! n]
      else nat_string (n div 10) @ [''0123456789'' ! (n mod 10)])"

declare nat_string.simps [simp del]

definition int_string :: "int \<Rightarrow> string" where
  "int_string k = (if k < 0 then ''-'' @ nat_string (nat (- k)) else nat_string (nat k))"

record roadmap_post_body =
  g_questionnaireId :: objectId
  g_title :: string
  g_description :: "string option"
  g_targetMaturityLevel :: maturity
  g_estimatedTimeline :: timeline
  g_totalEstimatedCost :: cost

text \<open>\<open>priorityAreas\<close> of \<open>router.post('/')\<close>.\<close>

definition priorityAreas_of :: "questionnaire \<Rightarrow> priority_area list" where
  "priorityAreas_of q =
     map (\<lambda>(category, currentScore).
            let targetScore = min 100 (currentScore + 20)
            in \<lparr>pa_category = category, currentScore = currentScore,
                targetScore = targetScore,
                improvementNeeded = targetScore - currentScore\<rparr>)
         (entries (categoryScores q))"

text \<open>
  \<open>initialTasks\<close> of \<open>router.post('/')\<close>: the array starts empty, the first \<open>forEach\<close>
  pushes one object per non-conformity, the second one object per entry of
  \<open>categoryScores\<close> below 60. \<open>find(...)?.category || 'Plan'\<close> is the category of the
  first response with the clause, and \<open>'Plan'\<close> when \<open>find\<close> returns \<open>undefined\<close>
  (a stored category is a non-empty string, hence truthy).
\<close>

definition plain_task ::
  "string \<Rightarrow> string \<Rightarrow> category \<Rightarrow> priority \<Rightarrow> effort \<Rightarrow> cost \<Rightarrow> task_status \<Rightarrow> task_data" where
  "plain_task ti de ca pr ef co st =
     \<lparr>title = ti, description = de, t_category = ca, priority = pr, estimatedEffort = ef,
      dependencies = [], resources = [], cost = co, status = Some st, startDate = None,
      dueDate = None, completedDate = None, assignedTo = None, t_notes = None,
      attachments = []\<rparr>"

definition initialTasks :: "questionnaire \<Rightarrow> task_data list" where
  "initialTasks q =
     (let initialTasks0 = [];
          initialTasks1 =
            foldl (\<lambda>initialTasks nc.
                     initialTasks @
                     [plain_task
                        (''Resolve: '' @ question nc)
                        (''Address the non-conformity identified in '' @ nc_clause nc
                         @ ''. '' @ impact nc)
                        (case find (\<lambda>r. clause r = nc_clause nc) (responses q) of
                           Some r \<Rightarrow> category r
                         | None \<Rightarrow> Plan)
                        Critical Weeks_1_2 Cost_Medium Not_Started])
                  initialTasks0 (majorNonConformities q)
      in foldl (\<lambda>initialTasks (category, score).
                  if score < 60 then
                    initialTasks @
                    [plain_task
                       (''Improve '' @ category_name category @ '' Category Score'')
                       (''Current score: '' @ int_string score
                        @ ''%. Focus on implementing controls and processes to improve this category.'')
                       category
                       (if score < 40 then High else Medium)
                       Weeks_2_4 Cost_Medium Not_Started]
                  else initialTasks)
               initialTasks1 (entries (categoryScores q)))"

definition days :: "int \<Rightarrow> int" where
  "days n = n * 24 * 60 * 60 * 1000"

definition initialMilestones :: "date \<Rightarrow> maturity \<Rightarrow> milestone_data list" where
  "initialMilestones now target =
     [\<lparr>m_title = ''Initial Assessment Complete'',
       m_description = ''Questionnaire completed and initial roadmap created'',
       targetDate = now + days 30, m_status = Milestone_Completed, m_tasks = [],
       completionPercentage = 0\<rparr>,
      \<lparr>m_title = ''Critical Issues Resolved'',
       m_description = ''All major non-conformities addressed'',
       targetDate = now + days 90, m_status = Pending, m_tasks = [],
       completionPercentage = 0\<rparr>,
      \<lparr>m_title = ''Target Maturity Level Achieved'',
       m_description = ''Reach '' @ maturity_name target @ '' maturity level'',
       targetDate = now + days 365, m_status = Pending, m_tasks = [],
       completionPercentage = 0\<rparr>]"

definition riskAssessment_fixed :: "risk_entry list" where
  "riskAssessment_fixed =
     [\<lparr>risk = ''Resource constraints affecting implementation timeline'',
       probability = Degree_Medium, r_impact = Degree_High,
       mitigation = ''Secure necessary resources and budget approval early in the process''\<rparr>,
      \<lparr>risk = ''Staff resistance to new security processes'',
       probability = Degree_Medium, r_impact = Degree_Medium,
       mitigation = ''Provide comprehensive training and change management support''\<rparr>,
      \<lparr>risk = ''External dependencies delaying progress'',
       probability = Degree_Low, r_impact = Degree_Medium,
       mitigation = ''Establish clear timelines and regular communication with external parties''\<rparr>]"

definition complianceRequirements_of :: "date \<Rightarrow> compliance_requirement list" where
  "complianceRequirements_of now =
     [\<lparr>requirement = ''Implement basic security controls'', deadline = now + days 180,
       c_status = Compliance_Not_Started, c_notes = ''Focus on essential controls first''\<rparr>,
      \<lparr>requirement = ''Establish monitoring and review processes'', deadline = now + days 270,
       c_status = Compliance_Not_Started, c_notes = ''Implement regular review cycles''\<rparr>,
      \<lparr>requirement = ''Achieve target maturity level'', deadline = now + days 365,
       c_status = Compliance_Not_Started,
       c_notes = ''Final milestone for initial implementation''\<rparr>]"

text \<open>
  \<open>new Roadmap({...})\<close>: the document takes the next ObjectId, its task and milestone
  subdocuments the ones after it; the paths not given take the schema's defaults.
\<close>

definition number_from :: "objectId \<Rightarrow> 'a list \<Rightarrow> (objectId \<times> 'a) list" where
  "number_from i xs = zip [i ..< i + length xs] xs"

definition new_Roadmap ::
  "date \<Rightarrow> objectId \<Rightarrow> user \<Rightarrow> roadmap_post_body \<Rightarrow> questionnaire \<Rightarrow> roadmap" where
  "new_Roadmap now i u b q =
     (let tds = initialTasks q; mds = initialMilestones now (g_targetMaturityLevel b)
      in \<lparr>r_id = i, r_userId = u_id u, questionnaireId = g_questionnaireId b,
          r_title = g_title b,
          r_description =
            (case g_description b of
               None \<Rightarrow> ''Personalized roadmap to achieve ''
                        @ maturity_name (g_targetMaturityLevel b) @ '' maturity level''
             | Some d \<Rightarrow> if d = [] then ''Personalized roadmap to achieve ''
                                     @ maturity_name (g_targetMaturityLevel b)
                                     @ '' maturity level''
                         else d),
          currentMaturityLevel = level (maturityLevel q),
          targetMaturityLevel = g_targetMaturityLevel b,
          estimatedTimeline = g_estimatedTimeline b,
          totalEstimatedCost = g_totalEstimatedCost b,
          milestones = map (\<lambda>(k, md). new_Milestone k md)
                         (number_from (i + 1 + length tds) mds),
          tasks = map (\<lambda>(k, td). new_Task k td) (number_from (i + 1) tds),
          priorityAreas = priorityAreas_of q,
          riskAssessment = riskAssessment_fixed,
          complianceRequirements = complianceRequirements_of now,
          progress = \<lparr>overall = 0, byCategory = all0\<rparr>,
          r_status = Draft, r_tags = [], version = ''1.0.0'', lastUpdated = now\<rparr>)"





text \<open>
  \<open>router.put('/:id/tasks/:taskId')\<close>: the exception of \<open>updateTaskStatus\<close> is caught
  and answered with 500.
\<close>

definition put_task ::
  "date \<Rightarrow> user \<Rightarrow> objectId \<Rightarrow> objectId \<Rightarrow> task_status \<Rightarrow> database \<Rightarrow> unit reply \<times> database" where
  "put_task now u i taskId st db =
     (case find (\<lambda>r. r_id r = i) (roadmaps db) of
        None \<Rightarrow>
          (Json_error 404 ''Roadmap not found'' [''The requested roadmap does not exist''], db)
      | Some roadmap \<Rightarrow>
          if r_userId roadmap \<noteq> u_id u \<and> role u \<noteq> ''admin'' then
            (Json_error 403 ''Access denied'' [''You can only modify your own roadmaps''], db)
          else
            (case updateTaskStatus now taskId st roadmap db of
               Inl e \<Rightarrow> (Json_error 500 ''Failed to update task'' [''Internal server error''], db)
             | Inr (r', db') \<Rightarrow> (Json_ok 200 (), db')))"


section \<open>The specification's progress function, and example data\<close>





text \<open>Three responses of a request body, one for each answer.\<close>

definition ex_oui :: response_body where
  "ex_oui = \<lparr>questionId = ''q1'', questionText = ''Is there a policy?'', category = ''Plan'',
     clause = ''5.2'', weight = 10, critical = True, response = ''Oui''\<rparr>"

definition ex_part :: response_body where
  "ex_part = \<lparr>questionId = ''q2'', questionText = ''Are risks assessed?'', category = ''Do'',
     clause = ''6.1'', weight = 4, critical = False, response = ''Partiellement''\<rparr>"

definition ex_non :: response_body where
  "ex_non = \<lparr>questionId = ''q3'', questionText = ''Are audits held?'', category = ''Check'',
     clause = ''9.2'', weight = 6, critical = True, response = ''Non''\<rparr>"

text \<open>Example tasks and a roadmap that holds a given task sequence.\<close>

definition ex_task :: "objectId \<Rightarrow> category \<Rightarrow> task_status \<Rightarrow> date option \<Rightarrow> task" where
  "ex_task i c st d =
     \<lparr>title = ''Write the policy'', description = ''Draft and approve the policy'',
      t_category = c, priority = Medium, estimatedEffort = Days_3_5, dependencies = [],
      resources = [], cost = Cost_Low, status = st, startDate = None, dueDate = None,
      completedDate = d, assignedTo = None, t_notes = None, attachments = [], t_id = i\<rparr>"

definition ex_roadmap :: "task list \<Rightarrow> progress \<Rightarrow> roadmap" where
  "ex_roadmap ts p =
     \<lparr>r_id = 1, r_userId = 7, questionnaireId = 0, r_title = ''Roadmap'',
      r_description = ''Example'', currentMaturityLevel = Critique,
      targetMaturityLevel = Basique, estimatedTimeline = Months_3_6,
      totalEstimatedCost = Cost_Low, milestones = [], tasks = ts, priorityAreas = [],
      riskAssessment = [], complianceRequirements = [], progress = p, r_status = Draft,
      r_tags = [], version = ''1.0.0'', lastUpdated = 0\<rparr>"

definition ex_tasks3 :: "task list" where
  "ex_tasks3 = [ex_task 2 Plan Completed (Some 5), ex_task 3 Plan Not_Started None,
                ex_task 4 Do In_Progress None]"

definition ex_user :: user where
  "ex_user = \<lparr>u_id = 7, role = ''user''\<rparr>"











text \<open>A stored roadmap with the three example tasks and their progress.\<close>

definition ex_progress3 :: progress where
  "ex_progress3 = \<lparr>overall = 33, byCategory = \<lparr>atPlan = 50, atDo = 0, atCheck = 0, atAct = 0\<rparr>\<rparr>"

definition ex_db_tasks3 :: database where
  "ex_db_tasks3 = \<lparr>questionnaires = [], roadmaps = [ex_roadmap ex_tasks3 ex_progress3], next_id = 10\<rparr>"





text \<open>
  A scored questionnaire with two non-conformities: the clause of the first is that of
  the second and of the third response, the clause of the second that of no response.
\<close>

definition ex_scored :: questionnaire where
  "ex_scored =
     \<lparr>q_id = 0, q_userId = 7,
      responses =
        [\<lparr>questionId = ''q1'', questionText = ''Is there a policy?'', category = Plan,
          clause = ''5.2'', weight = 10, critical = True, response = Oui, score = 10\<rparr>,
         \<lparr>questionId = ''q3'', questionText = ''Are audits held?'', category = Check,
          clause = ''9.2'', weight = 6, critical = True, response = Non, score = 0\<rparr>,
         \<lparr>questionId = ''q6'', questionText = ''Are findings followed up?'', category = Act,
          clause = ''9.2'', weight = 4, critical = False, response = Partiellement,
          score = 2\<rparr>],
      overallScore = 60,
      categoryScores = \<lparr>atPlan = 100, atDo = 0, atCheck = 0, atAct = 50\<rparr>,
      maturityLevel =
        \<lparr>level = Intermediaire, color = Warning,
         ml_description = ''SMSI en d'' @ [CHR 0xE9] @ ''veloppement''\<rparr>,
      majorNonConformities =
        [\<lparr>question = ''Are audits held?'', nc_clause = ''9.2'',
          impact = ''No internal audit''\<rparr>,
         \<lparr>question = ''Is the scope defined?'', nc_clause = ''4.3'',
          impact = ''Scope unknown''\<rparr>],
      totalQuestions = 3, answeredQuestions = 3, completionTime = 0,
      q_status = Q_Completed, q_notes = [], q_tags = []\<rparr>"

definition ex_generation_body :: roadmap_post_body where
  "ex_generation_body =
     \<lparr>g_questionnaireId = 0, g_title = ''Plan 2025'', g_description = None,
      g_targetMaturityLevel = Avance, g_estimatedTimeline = Months_6_12,
      g_totalEstimatedCost = Cost_Medium\<rparr>"

section \<open>Properties\<close>

subsection \<open>Scoring\<close>

text \<open>
  C1. For a submitted response of weight \<open>w > 0\<close> the derived score is \<open>w\<close> for
  \<open>'Oui'\<close>, \<open>w * 0.5\<close> for \<open>'Partiellement'\<close> and \<open>0\<close> for \<open>'Non'\<close>, and the submission
  route and the update route derive the same scored response.
\<close>

theorem score_of_response:
  assumes "i < length rs" and "0 < weight (rs ! i)"
  shows "(response (rs ! i) = ''Oui'' \<longrightarrow>
            score (post_scoredResponses rs ! i) = weight (rs ! i) \<and>
            score (put_scoredResponses rs ! i) = weight (rs ! i))
       \<and> (response (rs ! i) = ''Partiellement'' \<longrightarrow>
            score (post_scoredResponses rs ! i) = weight (rs ! i) * 0.5 \<and>
            score (put_scoredResponses rs ! i) = weight (rs ! i) * 0.5)
       \<and> (response (rs ! i) = ''Non'' \<longrightarrow>
            score (post_scoredResponses rs ! i) = 0 \<and>
            score (put_scoredResponses rs ! i) = 0)
       \<and> post_scoredResponses rs ! i = put_scoredResponses rs ! i"
  using assms
  by (simp add: post_scoredResponses_def put_scoredResponses_def post_score_def
        put_score_def with_score_def)

theorem score_of_response_witness:
  "map score (post_scoredResponses [ex_oui, ex_part, ex_non]) = [10, 2, 0]
   \<and> map score (put_scoredResponses [ex_oui, ex_part, ex_non]) = [10, 2, 0]"
  using score_of_response [of 0 "[ex_oui, ex_part, ex_non]"]
        score_of_response [of 1 "[ex_oui, ex_part, ex_non]"]
        score_of_response [of 2 "[ex_oui, ex_part, ex_non]"]
  by (simp add: ex_oui_def ex_part_def ex_non_def post_scoredResponses_def
        put_scoredResponses_def)

subsection \<open>Maturity tiers\<close>

text \<open>
  C2. For an overall score \<open>s\<close> between 0 and 100 the tier is the first one, from the
  top, whose inclusive lower bound \<open>s\<close> reaches: Excellence from 90, Avance from 75,
  Intermediaire from 60, Basique from 40, Critique below; 90 is Excellence, 89.9
  Avance, 40 Basique and 39.9 Critique.
\<close>

theorem maturity_tiers:
  assumes "0 \<le> s" and "s \<le> 100"
  shows "(90 \<le> s \<longrightarrow> level (getMaturityLevel s) = Excellence)
       \<and> (75 \<le> s \<and> s < 90 \<longrightarrow> level (getMaturityLevel s) = Avance)
       \<and> (60 \<le> s \<and> s < 75 \<longrightarrow> level (getMaturityLevel s) = Intermediaire)
       \<and> (40 \<le> s \<and> s < 60 \<longrightarrow> level (getMaturityLevel s) = Basique)
       \<and> (s < 40 \<longrightarrow> level (getMaturityLevel s) = Critique)
       \<and> level (getMaturityLevel 90) = Excellence
       \<and> level (getMaturityLevel 89.9) = Avance
       \<and> level (getMaturityLevel 40) = Basique
       \<and> level (getMaturityLevel 39.9) = Critique"
  by (simp add: getMaturityLevel_def)

theorem maturity_tiers_witness:
  "map (\<lambda>s. level (getMaturityLevel s)) [95, 80, 65, 50, 20]
     = [Excellence, Avance, Intermediaire, Basique, Critique]"
  using maturity_tiers [of 95] maturity_tiers [of 80] maturity_tiers [of 65]
        maturity_tiers [of 50] maturity_tiers [of 20]
  by simp

subsection \<open>Progress\<close>












subsection \<open>The stored progress is an invariant\<close>























subsection \<open>Updating the status of a task\<close>

lemma find_first:
  "i < length xs \<Longrightarrow> P (xs ! i) \<Longrightarrow> \<forall>j<i. \<not> P (xs ! j) \<Longrightarrow> find P xs = Some (xs ! i)"
proof (induction xs arbitrary: i)
  case Nil
  then show ?case by simp
next
  case (Cons x xs)
  show ?case
  proof (cases i)
    case 0
    with Cons.prems show ?thesis by simp
  next
    case (Suc k)
    with Cons.prems have "\<not> P x" by auto
    moreover have "find P xs = Some (xs ! k)"
      using Cons.prems Suc by (intro Cons.IH) auto
    ultimately show ?thesis using Suc by simp
  qed
qed

lemma replace_first_first:
  "i < length xs \<Longrightarrow> P (xs ! i) \<Longrightarrow> \<forall>j<i. \<not> P (xs ! j) \<Longrightarrow> replace_first P y xs = xs[i := y]"
proof (induction xs arbitrary: i)
  case Nil
  then show ?case by simp
next
  case (Cons x xs)
  show ?case
  proof (cases i)
    case 0
    with Cons.prems show ?thesis by simp
  next
    case (Suc k)
    with Cons.prems have "\<not> P x" by auto
    moreover have "replace_first P y xs = xs[k := y]"
      using Cons.prems Suc by (intro Cons.IH) auto
    ultimately show ?thesis using Suc by simp
  qed
qed

lemma tasks_save_roadmap: "tasks (fst (save_roadmap now loaded r db)) = tasks r"
  by (simp add: save_roadmap_def roadmap_pre_save_def Let_def)

lemma roadmaps_save_roadmap:
  "roadmaps (snd (save_roadmap now loaded r db))
     = replace_first (\<lambda>d. r_id d = r_id r) (fst (save_roadmap now loaded r db)) (roadmaps db)"
  by (simp add: save_roadmap_def roadmap_pre_save_def Let_def)

lemma updateTaskStatus_found:
  assumes "i < length (tasks r)" and "t_id (tasks r ! i) = taskId"
    and "\<forall>j<i. t_id (tasks r ! j) \<noteq> taskId"
  shows "updateTaskStatus now taskId st r db =
           Inr (save_roadmap now r
                  (r\<lparr>tasks := (tasks r)
                       [i := (if st = Completed
                              then (tasks r ! i)\<lparr>status := st, completedDate := Some now\<rparr>
                              else (tasks r ! i)\<lparr>status := st\<rparr>)]\<rparr>) db)"
  using find_first [of i "tasks r" "\<lambda>t. t_id t = taskId"]
    replace_first_first [of i "tasks r" "\<lambda>t. t_id t = taskId"] assms
  by (simp add: updateTaskStatus_def Let_def)

text \<open>
  C6. When no task of the roadmap has the given id, \<open>updateTaskStatus\<close> throws
  \<open>'Task not found'\<close>, and the route built on it answers with an error and leaves the
  database as it was: the roadmap, its task sequence and its progress are unchanged.
\<close>

theorem unknown_task_rejected:
  assumes "taskId \<notin> t_id ` set (tasks r)"
  shows "updateTaskStatus now taskId st r db = Inl (Error ''Task not found'')
       \<and> (find (\<lambda>d. r_id d = i) (roadmaps db) = Some r
            \<and> (r_userId r = u_id u \<or> role u = ''admin'')
          \<longrightarrow> put_task now u i taskId st db
                = (Json_error 500 ''Failed to update task'' [''Internal server error''], db))"
proof -
  have "find (\<lambda>t. t_id t = taskId) (tasks r) = None"
    using assms by (auto simp: find_None_iff)
  then have "updateTaskStatus now taskId st r db = Inl (Error ''Task not found'')"
    by (simp add: updateTaskStatus_def)
  then show ?thesis by (auto simp: put_task_def)
qed

theorem unknown_task_rejected_witness:
  "99 \<notin> t_id ` set (tasks (ex_roadmap ex_tasks3 ex_progress3))
   \<and> updateTaskStatus 3000 99 Completed (ex_roadmap ex_tasks3 ex_progress3) ex_db_tasks3
       = Inl (Error ''Task not found'')
   \<and> put_task 3000 ex_user 1 99 Completed ex_db_tasks3
       = (Json_error 500 ''Failed to update task'' [''Internal server error''], ex_db_tasks3)"
proof -
  have h: "99 \<notin> t_id ` set (tasks (ex_roadmap ex_tasks3 ex_progress3))"
    by (simp add: ex_roadmap_def ex_tasks3_def ex_task_def)
  have f: "find (\<lambda>d. r_id d = 1) (roadmaps ex_db_tasks3) = Some (ex_roadmap ex_tasks3 ex_progress3)
           \<and> (r_userId (ex_roadmap ex_tasks3 ex_progress3) = u_id ex_user \<or> role ex_user = ''admin'')"
    by (simp add: ex_db_tasks3_def ex_roadmap_def ex_user_def)
  show ?thesis
    using h f unknown_task_rejected [OF h, of 3000 Completed ex_db_tasks3 1 ex_user]
    by simp
qed

text \<open>
  C7. When the id resolves to a task (the first with that id), \<open>updateTaskStatus\<close>
  returns, the task has the new status, and its \<open>completedDate\<close> is the current time
  exactly when the new status is Completed (it keeps its former value otherwise); the
  saved roadmap replaces the stored one; and setting Completed once more, at a later
  time, sets the date to that time.
\<close>

theorem completion_sets_date:
  assumes "i < length (tasks r)" and "t_id (tasks r ! i) = taskId"
    and "\<forall>j<i. t_id (tasks r ! j) \<noteq> taskId"
  shows "\<exists>r' db'. updateTaskStatus now taskId st r db = Inr (r', db')
          \<and> length (tasks r') = length (tasks r)
          \<and> status (tasks r' ! i) = st
          \<and> completedDate (tasks r' ! i)
              = (if st = Completed then Some now else completedDate (tasks r ! i))
          \<and> (st = Completed \<longrightarrow>
               tasks r' ! i = (tasks r ! i)\<lparr>status := Completed, completedDate := Some now\<rparr>)
          \<and> roadmaps db' = replace_first (\<lambda>d. r_id d = r_id r) r' (roadmaps db)
          \<and> (\<exists>r'' db''. updateTaskStatus now2 taskId Completed r' db' = Inr (r'', db'')
                \<and> status (tasks r'' ! i) = Completed
                \<and> completedDate (tasks r'' ! i) = Some now2)"
proof -
  define t2 where "t2 = (if st = Completed
     then (tasks r ! i)\<lparr>status := st, completedDate := Some now\<rparr>
     else (tasks r ! i)\<lparr>status := st\<rparr>)"
  define r1 where "r1 = r\<lparr>tasks := (tasks r)[i := t2]\<rparr>"
  define r' where "r' = fst (save_roadmap now r r1 db)"
  define db' where "db' = snd (save_roadmap now r r1 db)"
  have u: "updateTaskStatus now taskId st r db = Inr (r', db')"
    using updateTaskStatus_found [OF assms, of now st db]
    by (simp add: r'_def db'_def r1_def t2_def)
  have ts: "tasks r' = (tasks r)[i := t2]"
    by (simp add: r'_def tasks_save_roadmap r1_def)
  have id: "r_id r' = r_id r"
    by (simp add: r'_def save_roadmap_def roadmap_pre_save_def Let_def r1_def)
  have rs: "roadmaps db' = replace_first (\<lambda>d. r_id d = r_id r) r' (roadmaps db)"
    using roadmaps_save_roadmap [of now r r1 db] by (simp add: db'_def r'_def r1_def)
  have first': "i < length (tasks r')" "t_id (tasks r' ! i) = taskId"
    "\<forall>j<i. t_id (tasks r' ! j) \<noteq> taskId"
    using assms by (auto simp: ts t2_def)
  define r'' where "r'' = fst (save_roadmap now2 r'
      (r'\<lparr>tasks := (tasks r')[i := (tasks r' ! i)\<lparr>status := Completed, completedDate := Some now2\<rparr>]\<rparr>) db')"
  define db'' where "db'' = snd (save_roadmap now2 r'
      (r'\<lparr>tasks := (tasks r')[i := (tasks r' ! i)\<lparr>status := Completed, completedDate := Some now2\<rparr>]\<rparr>) db')"
  have u2: "updateTaskStatus now2 taskId Completed r' db' = Inr (r'', db'')"
    using updateTaskStatus_found [OF first', of now2 Completed db']
    by (simp add: r''_def db''_def)
  have ts2: "tasks r'' ! i = (tasks r' ! i)\<lparr>status := Completed, completedDate := Some now2\<rparr>"
    using first'(1) by (simp add: r''_def tasks_save_roadmap)
  show ?thesis
    using u ts rs u2 ts2 assms(1) by (simp add: t2_def)
qed

theorem completion_sets_date_witness:
  "(case updateTaskStatus 3000 3 Completed (ex_roadmap ex_tasks3 ex_progress3) ex_db_tasks3 of
      Inl e \<Rightarrow> False
    | Inr (r', db') \<Rightarrow>
        map (\<lambda>t. (t_id t, status t, completedDate t)) (tasks r')
          = [(2, Completed, Some 5), (3, Completed, Some 3000), (4, In_Progress, None)]
        \<and> roadmaps db' = [r']
        \<and> (case updateTaskStatus 4000 3 Completed r' db' of
              Inl e \<Rightarrow> False
            | Inr (r'', db'') \<Rightarrow>
                map (\<lambda>t. (t_id t, status t, completedDate t)) (tasks r'')
                  = [(2, Completed, Some 5), (3, Completed, Some 4000),
                     (4, In_Progress, None)]))"
proof -
  have h1: "1 < length (tasks (ex_roadmap ex_tasks3 ex_progress3))"
    and h2: "t_id (tasks (ex_roadmap ex_tasks3 ex_progress3) ! 1) = 3"
    and h3: "\<forall>j<1. t_id (tasks (ex_roadmap ex_tasks3 ex_progress3) ! j) \<noteq> 3"
    by (simp_all add: ex_roadmap_def ex_tasks3_def ex_task_def)
  note T = completion_sets_date [OF h1 h2 h3, of 3000 Completed ex_db_tasks3 4000]
  have E: ?thesis by code_simp
  show ?thesis by (insert T, rule E)
qed

text \<open>
  C10. When the task that the id resolves to is Completed and has a \<open>completedDate\<close>,
  an update to a status other than Completed changes the \<open>status\<close> of that task and
  nothing else in the task sequence: the \<open>completedDate\<close> stays.
\<close>

theorem status_change_keeps_date:
  assumes "i < length (tasks r)" and "t_id (tasks r ! i) = taskId"
    and "\<forall>j<i. t_id (tasks r ! j) \<noteq> taskId"
    and "status (tasks r ! i) = Completed" and "completedDate (tasks r ! i) = Some d"
    and "st \<noteq> Completed"
  shows "\<exists>r' db'. updateTaskStatus now taskId st r db = Inr (r', db')
          \<and> tasks r' = (tasks r)[i := (tasks r ! i)\<lparr>status := st\<rparr>]
          \<and> status (tasks r' ! i) = st
          \<and> completedDate (tasks r' ! i) = Some d"
  using updateTaskStatus_found [OF assms(1-3), of now st db] assms(1,4-6)
    tasks_save_roadmap [of now r "r\<lparr>tasks := (tasks r)[i := (tasks r ! i)\<lparr>status := st\<rparr>]\<rparr>" db]
  by (cases "save_roadmap now r (r\<lparr>tasks := (tasks r)[i := (tasks r ! i)\<lparr>status := st\<rparr>]\<rparr>) db") simp

theorem status_change_keeps_date_witness:
  "(case updateTaskStatus 3000 2 In_Progress (ex_roadmap ex_tasks3 ex_progress3) ex_db_tasks3 of
      Inl e \<Rightarrow> False
    | Inr (r', db') \<Rightarrow>
        tasks r' = [ex_task 2 Plan In_Progress (Some 5), ex_task 3 Plan Not_Started None,
                    ex_task 4 Do In_Progress None])"
proof -
  have h1: "0 < length (tasks (ex_roadmap ex_tasks3 ex_progress3))"
    and h2: "t_id (tasks (ex_roadmap ex_tasks3 ex_progress3) ! 0) = 2"
    and h3: "\<forall>j<0. t_id (tasks (ex_roadmap ex_tasks3 ex_progress3) ! j) \<noteq> 2"
    and h4: "status (tasks (ex_roadmap ex_tasks3 ex_progress3) ! 0) = Completed"
    and h5: "completedDate (tasks (ex_roadmap ex_tasks3 ex_progress3) ! 0) = Some 5"
    and h6: "In_Progress \<noteq> Completed"
    by (simp_all add: ex_roadmap_def ex_tasks3_def ex_task_def)
  note T = status_change_keeps_date [OF h1 h2 h3 h4 h5 h6, of 3000 ex_db_tasks3]
  have E: ?thesis by code_simp
  show ?thesis by (insert T, rule E)
qed

subsection \<open>Validation of a submission\<close>


lemma each_response_empty:
  "each_response ok msg rs = [] \<longleftrightarrow> (\<forall>r\<in>set rs. ok r)"
  by (auto simp: each_response_def filter_empty_conv)






subsection \<open>Roadmap generation\<close>

lemma push_loop: "foldl (\<lambda>acc x. acc @ [f x]) a xs = a @ map f xs"
  by (induction xs arbitrary: a) simp_all

lemma push_if_loop:
  "foldl (\<lambda>acc x. if P x then acc @ [f x] else acc) a xs = a @ map f (filter P xs)"
  by (induction xs arbitrary: a) simp_all


lemma initialTasks_eq:
  "initialTasks q =
     map (\<lambda>nc. plain_task (''Resolve: '' @ question nc)
                 (''Address the non-conformity identified in '' @ nc_clause nc
                  @ ''. '' @ impact nc)
                 (case find (\<lambda>r. clause r = nc_clause nc) (responses q) of
                    Some r \<Rightarrow> category r | None \<Rightarrow> Plan)
                 Critical Weeks_1_2 Cost_Medium Not_Started)
         (majorNonConformities q)
     @ map (\<lambda>(c, s). plain_task (''Improve '' @ category_name c @ '' Category Score'')
                 (''Current score: '' @ int_string s
                  @ ''%. Focus on implementing controls and processes to improve this category.'')
                 c (if s < 40 then High else Medium) Weeks_2_4 Cost_Medium Not_Started)
         (filter (\<lambda>(c, s). s < 60) (entries (categoryScores q)))"
proof -
  have "foldl (\<lambda>acc cs. case cs of (c, s) \<Rightarrow> if s < 60 then acc @ [g c s] else acc) a xs
          = a @ map (\<lambda>(c, s). g c s) (filter (\<lambda>(c, s). s < 60) xs)"
    for g :: "category \<Rightarrow> int \<Rightarrow> task_data" and a xs
    using push_if_loop [of "\<lambda>x. snd x < 60" "\<lambda>x. g (fst x) (snd x)" a xs]
    by (simp add: split_def)
  then show ?thesis
    by (simp add: initialTasks_def Let_def push_loop)
qed

lemma map_numbered:
  "map (\<lambda>(k, x). g (f k x)) (number_from i xs) = map h xs" if "\<And>k x. g (f k x) = h x"
proof -
  have "map (\<lambda>(k, x). g (f k x)) (zip ks xs) = map h xs" if "length ks = length xs" for ks
    using that \<open>\<And>k x. g (f k x) = h x\<close>
    by (induction ks xs rule: list_induct2) simp_all
  then show ?thesis by (simp add: number_from_def)
qed

lemma tasks_new_Roadmap:
  "map g (tasks (roadmap_pre_save now True (new_Roadmap now i u b q)))
     = map (\<lambda>(k, td). g (new_Task k td)) (number_from (i + 1) (initialTasks q))"
  by (simp add: roadmap_pre_save_def new_Roadmap_def Let_def case_prod_beta comp_def)



lemma category_of_generated:
  assumes "k < length (majorNonConformities q)"
  shows "t_category (tasks (roadmap_pre_save now True (new_Roadmap now n u b q)) ! k)
     = (case find (\<lambda>r. clause r = nc_clause (majorNonConformities q ! k)) (responses q) of
          Some r \<Rightarrow> category r | None \<Rightarrow> Plan)"
proof -
  let ?R = "roadmap_pre_save now True (new_Roadmap now n u b q)"
  have m: "map t_category (tasks ?R) = map t_category (initialTasks q)"
    unfolding tasks_new_Roadmap
    by (rule map_numbered) (simp add: new_Task_def)
  have "k < length (initialTasks q)"
    using assms by (simp add: initialTasks_eq)
  then have "t_category (tasks ?R ! k) = t_category (initialTasks q ! k)"
    using m by (metis length_map nth_map)
  also have "\<dots> = (case find (\<lambda>r. clause r = nc_clause (majorNonConformities q ! k)) (responses q) of
          Some r \<Rightarrow> category r | None \<Rightarrow> Plan)"
    using assms by (simp add: initialTasks_eq nth_append plain_task_def)
  finally show ?thesis .
qed

text \<open>
  C9. The category of the task generated from an entry of \<open>majorNonConformities\<close> is
  the category of the first response whose clause equals the entry's clause, and Plan
  when no response of the questionnaire has that clause.
\<close>

theorem non_conformity_task_category:
  assumes "k < length (majorNonConformities q)"
  shows "((\<forall>r\<in>set (responses q). clause r \<noteq> nc_clause (majorNonConformities q ! k)) \<longrightarrow>
            t_category (tasks (roadmap_pre_save now True (new_Roadmap now n u b q)) ! k) = Plan)
       \<and> (\<forall>i<length (responses q).
            clause (responses q ! i) = nc_clause (majorNonConformities q ! k)
            \<and> (\<forall>j<i. clause (responses q ! j) \<noteq> nc_clause (majorNonConformities q ! k)) \<longrightarrow>
            t_category (tasks (roadmap_pre_save now True (new_Roadmap now n u b q)) ! k)
              = category (responses q ! i))"
proof (intro conjI impI allI)
  assume "\<forall>r\<in>set (responses q). clause r \<noteq> nc_clause (majorNonConformities q ! k)"
  then have "find (\<lambda>r. clause r = nc_clause (majorNonConformities q ! k)) (responses q) = None"
    by (simp add: find_None_iff)
  then show "t_category (tasks (roadmap_pre_save now True (new_Roadmap now n u b q)) ! k) = Plan"
    by (simp add: category_of_generated [OF assms])
next
  fix i
  assume "i < length (responses q)"
    and "clause (responses q ! i) = nc_clause (majorNonConformities q ! k)
         \<and> (\<forall>j<i. clause (responses q ! j) \<noteq> nc_clause (majorNonConformities q ! k))"
  then have "find (\<lambda>r. clause r = nc_clause (majorNonConformities q ! k)) (responses q)
               = Some (responses q ! i)"
    by (intro find_first) auto
  then show "t_category (tasks (roadmap_pre_save now True (new_Roadmap now n u b q)) ! k)
               = category (responses q ! i)"
    by (simp add: category_of_generated [OF assms])
qed

theorem non_conformity_task_category_witness:
  "map t_category (take 2 (tasks (roadmap_pre_save 1000 True
        (new_Roadmap 1000 1 ex_user ex_generation_body ex_scored)))) = [Check, Plan]
   \<and> map clause (responses ex_scored) = [''5.2'', ''9.2'', ''9.2'']
   \<and> map category (responses ex_scored) = [Plan, Check, Act]
   \<and> map nc_clause (majorNonConformities ex_scored) = [''9.2'', ''4.3'']"
proof -
  have k0: "0 < length (majorNonConformities ex_scored)"
    and k1: "1 < length (majorNonConformities ex_scored)"
    by (simp_all add: ex_scored_def)
  note T0 = non_conformity_task_category [OF k0, of 1000 1 ex_user ex_generation_body]
  note T1 = non_conformity_task_category [OF k1, of 1000 1 ex_user ex_generation_body]
  have E: ?thesis by code_simp
  show ?thesis by (insert T0 T1, rule E)
qed

end
